theory Spec2Isabelle
  imports Complex_Main
begin

section \<open>Python values, exceptions and numpy helpers\<close>

text \<open>
  The fitting code of \<^verbatim>\<open>vel_fit.py\<close> and the batch driver of \<^verbatim>\<open>desi/desi_fit.py\<close> are
  embedded over the real numbers: a Python float is a \<^typ>\<open>real\<close>, so rounding, overflow
  and the non-finite floats are outside the model. Where numpy would produce a non-finite
  value (\<^verbatim>\<open>np.log\<close> of a non-positive number, \<^verbatim>\<open>np.sqrt\<close> of a negative one) the model
  returns \<open>None\<close>. Every exception the code can raise is a value of \<open>error\<close>.
\<close>

datatype pyval = PNone | PNum real

datatype error =
    AttributeError
  | KeyError string
  | IndexError
  | AssertionError
  | Exception string
  | ValueError
  | LinAlgError
  | IOError
  | NonFinite
  | External string

text \<open>
  What the code prints: each \<^verbatim>\<open>print\<close> call is one value. \<open>FailedWith\<close> carries the
  argument tuple \<^verbatim>\<open>(fname, ofname, fig_prefix, config, fit_targetid)\<close> that
  \<^verbatim>\<open>proc_desi_wrapper\<close> prints.
\<close>

datatype printed =
    Line string
  | Processing string
  | MissingExtensions "string list"
  | Skipping string
  | FailedWith "string \<times> string \<times> string \<times> (string \<rightharpoonup> pyval) option \<times> int option"

text \<open>Truthiness of a configuration value: \<^verbatim>\<open>None\<close> and zero are falsy.\<close>

fun truthy :: "pyval \<Rightarrow> bool" where
  "truthy PNone = False"
| "truthy (PNum x) = (x \<noteq> 0)"

text \<open>\<^verbatim>\<open>v or d\<close> with a numeric default \<open>d\<close>: the left operand when it is truthy, else \<open>d\<close>.\<close>

fun py_or :: "pyval \<Rightarrow> real \<Rightarrow> real" where
  "py_or PNone d = d"
| "py_or (PNum x) d = (if truthy (PNum x) then x else d)"

text \<open>\<^verbatim>\<open>dict.get(k)\<close>: the value, or \<^verbatim>\<open>None\<close> when the key is absent.\<close>

definition dict_get :: "(string \<rightharpoonup> pyval) \<Rightarrow> string \<Rightarrow> pyval" where
  "dict_get d k = (case d k of None \<Rightarrow> PNone | Some v \<Rightarrow> v)"

text \<open>\<^verbatim>\<open>d[k]\<close>: raises \<^verbatim>\<open>KeyError\<close> when the key is absent.\<close>

definition dict_item :: "(string \<rightharpoonup> 'a) \<Rightarrow> string \<Rightarrow> error + 'a" where
  "dict_item d k = (case d k of None \<Rightarrow> Inl (KeyError k) | Some v \<Rightarrow> Inr v)"

text \<open>\<^verbatim>\<open>dict(zip(ks, vs))\<close>: later pairs overwrite earlier ones.\<close>

definition dict_zip :: "string list \<Rightarrow> 'a list \<Rightarrow> (string \<rightharpoonup> 'a)" where
  "dict_zip ks vs = foldl (\<lambda>m (k, v). m(k \<mapsto> v)) Map.empty (zip ks vs)"

text \<open>\<^verbatim>\<open>[d[k] for k in ks]\<close>.\<close>

fun items_of :: "(string \<rightharpoonup> 'a) \<Rightarrow> string list \<Rightarrow> error + 'a list" where
  "items_of d [] = Inr []"
| "items_of d (k # ks) =
     (case dict_item d k of Inl e \<Rightarrow> Inl e
      | Inr v \<Rightarrow> (case items_of d ks of Inl e \<Rightarrow> Inl e | Inr vs \<Rightarrow> Inr (v # vs)))"

text \<open>\<^verbatim>\<open>np.clip(a, lo, hi)\<close> is \<^verbatim>\<open>minimum(maximum(a, lo), hi)\<close>.\<close>

definition np_clip :: "real \<Rightarrow> real \<Rightarrow> real \<Rightarrow> real" where
  "np_clip a lo hi = min (max a lo) hi"

definition np_log :: "real \<Rightarrow> real option" where
  "np_log x = (if 0 < x then Some (ln x) else None)"

definition np_sqrt :: "real \<Rightarrow> real option" where
  "np_sqrt x = (if 0 \<le> x then Some (sqrt x) else None)"

text \<open>\<^verbatim>\<open>np.allclose(a, b)\<close> with the default tolerances \<^verbatim>\<open>rtol=1e-5\<close>, \<^verbatim>\<open>atol=1e-8\<close>.\<close>

definition allclose :: "real \<Rightarrow> real \<Rightarrow> bool" where
  "allclose a b = (\<bar>a - b\<bar> \<le> 1 / 10 ^ 8 + (1 / 10 ^ 5) * \<bar>b\<bar>)"

text \<open>
  \<^verbatim>\<open>np.arange(start, stop, step)\<close> on floats: \<open>ceil((stop - start) / step)\<close> values
  \<open>start + i * step\<close>, none when that count is not positive; a zero step raises.
\<close>

definition arange_values :: "real \<Rightarrow> real \<Rightarrow> real \<Rightarrow> real list" where
  "arange_values start stop step =
     map (\<lambda>i. start + real i * step) [0..<nat \<lceil>(stop - start) / step\<rceil>]"

definition arange :: "real \<Rightarrow> real \<Rightarrow> real \<Rightarrow> error + real list" where
  "arange start stop step =
     (if step = 0 then Inl ValueError else Inr (arange_values start stop step))"

text \<open>\<^verbatim>\<open>np.diag(m)\<close> of a matrix given as a list of rows.\<close>

definition np_diag :: "real list list \<Rightarrow> real list" where
  "np_diag m = map (\<lambda>i. m ! i ! i) (filter (\<lambda>i. i < length (m ! i)) [0..<length m])"

section \<open>Configuration of \<^verbatim>\<open>process\<close> (vel\_fit.py, lines 58--67)\<close>

type_synonym config = "(string \<rightharpoonup> pyval) option"

record settings =
  min_vel :: real
  max_vel :: real
  vel_step0 :: real
  max_vsini :: real
  min_vsini :: real
  min_vel_step :: real

text \<open>
  \<^verbatim>\<open>config.get(k)\<close>: on \<^verbatim>\<open>config = None\<close> the attribute access raises
  \<^verbatim>\<open>AttributeError\<close>.
\<close>

definition config_get :: "config \<Rightarrow> string \<Rightarrow> error + pyval" where
  "config_get config k =
     (case config of None \<Rightarrow> Inl AttributeError | Some d \<Rightarrow> Inr (dict_get d k))"

text \<open>Lines 59--64: the six \<^verbatim>\<open>config.get(k) or default\<close> assignments, in order.\<close>

definition read_settings :: "config \<Rightarrow> error + settings" where
  "read_settings config =
     (case config_get config ''min_vel'' of Inl e \<Rightarrow> Inl e | Inr v1 \<Rightarrow>
     (case config_get config ''max_vel'' of Inl e \<Rightarrow> Inl e | Inr v2 \<Rightarrow>
     (case config_get config ''vel_step0'' of Inl e \<Rightarrow> Inl e | Inr v3 \<Rightarrow>
     (case config_get config ''max_vsini'' of Inl e \<Rightarrow> Inl e | Inr v4 \<Rightarrow>
     (case config_get config ''min_vsini'' of Inl e \<Rightarrow> Inl e | Inr v5 \<Rightarrow>
     (case config_get config ''min_vel_step'' of Inl e \<Rightarrow> Inl e | Inr v6 \<Rightarrow>
        Inr \<lparr> min_vel = py_or v1 (- 1000), max_vel = py_or v2 1000,
              vel_step0 = py_or v3 5, max_vsini = py_or v4 500,
              min_vsini = py_or v5 (1 / 100), min_vel_step = py_or v6 (2 / 10) \<rparr>))))))"

text \<open>Lines 59--67: the settings are read first, the \<^verbatim>\<open>config is None\<close> test comes after.\<close>

definition check_config :: "config \<Rightarrow> error + settings" where
  "check_config config =
     (case read_settings config of Inl e \<Rightarrow> Inl e
      | Inr s \<Rightarrow> if config = None then Inl (Exception ''Config must be provided'') else Inr s)"

section \<open>The vsini transform (lines 69--75)\<close>

definition mapVsini :: "settings \<Rightarrow> real \<Rightarrow> real option" where
  "mapVsini s vsini = np_log (np_clip vsini (min_vsini s) (max_vsini s))"

definition mapVsiniInv :: "settings \<Rightarrow> real \<Rightarrow> real" where
  "mapVsiniInv s x = np_clip (exp x) (min_vsini s) (max_vsini s)"

text \<open>
  Line 75, \<^verbatim>\<open>assert (np.allclose(mapVsiniInv(mapVsini(3)), 3))\<close>. When the clipped value is
  not positive the float is \<^verbatim>\<open>nan\<close>, or \<^verbatim>\<open>-inf\<close> mapped back to \<open>0\<close>; neither is close
  to 3, so the assertion fails.
\<close>

definition vsini_assert :: "settings \<Rightarrow> bool" where
  "vsini_assert s =
     (case mapVsini s 3 of None \<Rightarrow> False | Some x \<Rightarrow> allclose (mapVsiniInv s x) 3)"

section \<open>External collaborators\<close>

text \<open>
  \<^verbatim>\<open>spec_fit\<close>, \<^verbatim>\<open>spec_inter\<close>, \<^verbatim>\<open>fitter_ccf\<close>, scipy and numdifftools are not part of
  the sources at hand; the functions that \<^verbatim>\<open>process\<close> calls are parameters of the model,
  each able to raise; a function of the model takes them as a record that may carry
  further fields. \<^verbatim>\<open>resolParams\<close>, \<^verbatim>\<open>options\<close> and \<^verbatim>\<open>config\<close> reach every one of
  these calls unchanged and are part of the collaborator, as is the fixed option record
  of the Nelder-Mead call. \<^verbatim>\<open>get_chisq\<close> stands for the call with
  \<^verbatim>\<open>full_output=True\<close>; without the flag the caller receives its \<open>chisq\<close> alone.
\<close>

record fb_result =
  best_vel :: real
  vel_err :: real
  skewness :: real
  kurtosis :: real

record 'm chisq_output =
  chisq :: real
  chisq_array :: "real list"
  models :: 'm

record ('sd, 'm) collab =
  getSpecParams :: "'sd \<Rightarrow> error + string list"
  param_dict_to_tuple :: "(string \<rightharpoonup> real) \<Rightarrow> 'sd \<Rightarrow> error + real list"
  find_best :: "'sd \<Rightarrow> real list \<Rightarrow> real list list \<Rightarrow> real option \<Rightarrow> error + fb_result"
  get_chisq :: "'sd \<Rightarrow> real \<Rightarrow> real list \<Rightarrow> real option \<Rightarrow> error + 'm chisq_output"
  minimize :: "(real list \<Rightarrow> error + real) \<Rightarrow> real list \<Rightarrow> error + real list"
  Hessian :: "(real list \<Rightarrow> error + real) \<Rightarrow> real list \<Rightarrow> real list \<Rightarrow> error + real list list"
  linalg_inv :: "real list list \<Rightarrow> error + real list list"

section \<open>\<^verbatim>\<open>process\<close>: seed, parameter mapping and objective (lines 77--151)\<close>

record seed =
  sd_settings :: settings
  sd_specParams :: "string list"
  sd_fixParam :: "string list"
  sd_fitVsini :: bool
  sd_best_vel :: real

text \<open>
  Lines 58--101. A rotation tuple \<^verbatim>\<open>(vsini, )\<close> or \<^verbatim>\<open>None\<close> is a \<^typ>\<open>real option\<close>;
  \<open>paramDict0 ''vsini''\<close> is \<open>None\<close> exactly when the key is absent.
\<close>

definition process_seed ::
  "('sd, 'm, 'z) collab_scheme \<Rightarrow> 'sd \<Rightarrow> (string \<rightharpoonup> real) \<Rightarrow> string list option \<Rightarrow> config \<Rightarrow> error + seed" where
  "process_seed c specdata paramDict0 fixParam config =
     (case check_config config of Inl e \<Rightarrow> Inl e | Inr s \<Rightarrow>
        if \<not> vsini_assert s then Inl AssertionError
        else
     (case arange (min_vel s) (max_vel s) (vel_step0 s) of Inl e \<Rightarrow> Inl e | Inr vels_grid \<Rightarrow>
     (case param_dict_to_tuple c paramDict0 specdata of Inl e \<Rightarrow> Inl e | Inr curparam \<Rightarrow>
     (case getSpecParams c specdata of Inl e \<Rightarrow> Inl e | Inr specParams \<Rightarrow>
        let fixParam1 = (case fixParam of None \<Rightarrow> [] | Some f \<Rightarrow> f);
            rot_params = paramDict0 ''vsini'';
            fitVsini = (case paramDict0 ''vsini'' of None \<Rightarrow> False
                        | Some _ \<Rightarrow> if ''vsini'' \<in> set fixParam1 then False else True)
        in
     (case find_best c specdata vels_grid [curparam] rot_params of Inl e \<Rightarrow> Inl e | Inr res \<Rightarrow>
        Inr \<lparr> sd_settings = s, sd_specParams = specParams, sd_fixParam = fixParam1,
              sd_fitVsini = fitVsini, sd_best_vel = best_vel res \<rparr>)))))"

record pdict =
  vel :: real
  vsini :: "real option"
  rot_params :: "real option"
  params :: "real list"

text \<open>
  Lines 122--126 of \<^verbatim>\<open>paramMapper\<close>. The source reverses the vector and pops from the end,
  so values are consumed from the front of \<open>p\<close>; what is left is returned with the list.
\<close>

fun map_params ::
  "string list \<Rightarrow> string list \<Rightarrow> (string \<rightharpoonup> real) \<Rightarrow> real list \<Rightarrow> error + (real list \<times> real list)" where
  "map_params [] fixParam paramDict0 p = Inr ([], p)"
| "map_params (x # xs) fixParam paramDict0 p =
     (if x \<in> set fixParam then
        (case dict_item paramDict0 x of Inl e \<Rightarrow> Inl e | Inr v \<Rightarrow>
        (case map_params xs fixParam paramDict0 p of Inl e \<Rightarrow> Inl e
         | Inr (vs, rest) \<Rightarrow> Inr (v # vs, rest)))
      else
        (case p of [] \<Rightarrow> Inl IndexError | v # p1 \<Rightarrow>
        (case map_params xs fixParam paramDict0 p1 of Inl e \<Rightarrow> Inl e
         | Inr (vs, rest) \<Rightarrow> Inr (v # vs, rest))))"

text \<open>Lines 103--128.\<close>

definition paramMapper ::
  "settings \<Rightarrow> bool \<Rightarrow> string list \<Rightarrow> string list \<Rightarrow> (string \<rightharpoonup> real) \<Rightarrow> real list \<Rightarrow> error + pdict" where
  "paramMapper s fitVsini fixParam specParams paramDict0 p0 =
     (case p0 of [] \<Rightarrow> Inl IndexError | v # p1 \<Rightarrow>
     (case (if fitVsini then
              (case p1 of [] \<Rightarrow> Inl IndexError | x # p2 \<Rightarrow> Inr (Some (mapVsiniInv s x), p2))
            else if ''vsini'' \<in> set fixParam then
              (case dict_item paramDict0 ''vsini'' of Inl e \<Rightarrow> Inl e | Inr w \<Rightarrow> Inr (Some w, p1))
            else Inr (None, p1))
      of Inl e \<Rightarrow> Inl e | Inr (vs, p2) \<Rightarrow>
     (case map_params specParams fixParam paramDict0 p2 of Inl e \<Rightarrow> Inl e
      | Inr (ps, rest) \<Rightarrow>
          if rest \<noteq> [] then Inl AssertionError
          else Inr \<lparr> vel = v, vsini = vs, rot_params = vs, params = ps \<rparr>)))"

text \<open>Lines 135--137: the free physical parameters of the start vector.\<close>

fun free_params :: "string list \<Rightarrow> string list \<Rightarrow> (string \<rightharpoonup> real) \<Rightarrow> error + real list" where
  "free_params [] fixParam paramDict0 = Inr []"
| "free_params (x # xs) fixParam paramDict0 =
     (if x \<notin> set fixParam then
        (case dict_item paramDict0 x of Inl e \<Rightarrow> Inl e | Inr v \<Rightarrow>
        (case free_params xs fixParam paramDict0 of Inl e \<Rightarrow> Inl e | Inr vs \<Rightarrow> Inr (v # vs)))
      else free_params xs fixParam paramDict0)"

text \<open>
  Lines 130--137. A start value \<^verbatim>\<open>mapVsini(...)\<close> that is not finite leaves the model
  (\<open>NonFinite\<close>).
\<close>

definition startParam ::
  "settings \<Rightarrow> bool \<Rightarrow> string list \<Rightarrow> string list \<Rightarrow> (string \<rightharpoonup> real) \<Rightarrow> real \<Rightarrow> error + real list" where
  "startParam s fitVsini fixParam specParams paramDict0 best_vel0 =
     (case (if fitVsini then
              (case dict_item paramDict0 ''vsini'' of Inl e \<Rightarrow> Inl e | Inr v \<Rightarrow>
              (case mapVsini s v of None \<Rightarrow> Inl NonFinite | Some x \<Rightarrow> Inr [x]))
            else Inr [])
      of Inl e \<Rightarrow> Inl e | Inr vs \<Rightarrow>
     (case free_params specParams fixParam paramDict0 of Inl e \<Rightarrow> Inl e
      | Inr ps \<Rightarrow> Inr (best_vel0 # vs @ ps)))"

text \<open>The sentinel \<^verbatim>\<open>1e30\<close> of the objective.\<close>

definition sentinel :: real where
  "sentinel = 10 ^ 30"

text \<open>Lines 139--151, the objective handed to the optimizer.\<close>

definition func ::
  "('sd, 'm, 'z) collab_scheme \<Rightarrow> 'sd \<Rightarrow> settings \<Rightarrow> bool \<Rightarrow> string list \<Rightarrow> string list \<Rightarrow>
     (string \<rightharpoonup> real) \<Rightarrow> real list \<Rightarrow> error + real" where
  "func c specdata s fitVsini fixParam specParams paramDict0 p =
     (case paramMapper s fitVsini fixParam specParams paramDict0 p of Inl e \<Rightarrow> Inl e
      | Inr pd \<Rightarrow>
          if vel pd > max_vel s \<or> vel pd < min_vel s then Inr sentinel
          else (case get_chisq c specdata (vel pd) (params pd) (rot_params pd) of
                  Inl e \<Rightarrow> Inl e | Inr outp \<Rightarrow> Inr (chisq outp)))"

section \<open>\<^verbatim>\<open>process\<close>: optimisation, clamping and the velocity scan (lines 153--207)\<close>

text \<open>Lines 155--163: the Nelder-Mead call on the objective, and the mapping of its result.\<close>

definition process_fit ::
  "('sd, 'm, 'z) collab_scheme \<Rightarrow> 'sd \<Rightarrow> settings \<Rightarrow> bool \<Rightarrow> string list \<Rightarrow> string list \<Rightarrow>
     (string \<rightharpoonup> real) \<Rightarrow> real list \<Rightarrow> error + pdict" where
  "process_fit c specdata s fitVsini fixParam specParams paramDict0 start =
     (case minimize c (func c specdata s fitVsini fixParam specParams paramDict0) start of
        Inl e \<Rightarrow> Inl e
      | Inr x \<Rightarrow> paramMapper s fitVsini fixParam specParams paramDict0 x)"

text \<open>
  Lines 178--183: the working velocity \<^verbatim>\<open>best_vel\<close> is limited to the bounds; the pair is
  what is printed and the new \<^verbatim>\<open>best_vel\<close>.
\<close>

definition clamp_vel :: "settings \<Rightarrow> real \<Rightarrow> printed list \<times> real" where
  "clamp_vel s v =
     (if v > max_vel s \<or> v < min_vel s then
        ([Line ''Warning velocity too large...''],
         if v > max_vel s then max_vel s else min_vel s)
      else ([], v))"

definition crit_ratio :: real where
  "crit_ratio = 5"

text \<open>Lines 191--193: the grid of one scan around \<^verbatim>\<open>best_vel\<close>.\<close>

definition scan_grid :: "real \<Rightarrow> real \<Rightarrow> real \<Rightarrow> real \<Rightarrow> error + real list" where
  "scan_grid bv vmin vmax vel_step =
     (case arange bv vmin (- vel_step) of Inl e \<Rightarrow> Inl e | Inr lower \<Rightarrow>
     (case arange (bv + vel_step) vmax vel_step of Inl e \<Rightarrow> Inl e | Inr upper \<Rightarrow>
        Inr (rev lower @ upper)))"

text \<open>
  Lines 190--207, \<^verbatim>\<open>while True\<close>. \<open>fb\<close> is the \<^verbatim>\<open>find_best\<close> call of lines 194--200 as a
  function of the grid, \<open>minstep\<close> is \<^verbatim>\<open>min_vel_step\<close>; \<open>vel_step\<close>, \<open>vmin\<close> and \<open>vmax\<close> are
  the variables \<^verbatim>\<open>vel_step\<close>, \<^verbatim>\<open>min_vel\<close> and \<^verbatim>\<open>max_vel\<close> that the loop updates. The
  source has no iteration counter: a run that never leaves the loop is \<open>None\<close>.
\<close>

partial_function (option) scan_loop ::
  "(real list \<Rightarrow> error + fb_result) \<Rightarrow> real \<Rightarrow> real \<Rightarrow> real \<Rightarrow> real \<Rightarrow> real \<Rightarrow>
     (error + fb_result) option" where
  "scan_loop fb minstep bv vel_step vmin vmax =
     (case scan_grid bv vmin vmax vel_step of Inl e \<Rightarrow> Some (Inl e) | Inr vels_grid \<Rightarrow>
     (case fb vels_grid of Inl e \<Rightarrow> Some (Inl e) | Inr res1 \<Rightarrow>
        if vel_step < vel_err res1 / crit_ratio \<or> vel_step < minstep then Some (Inr res1)
        else
          let vel_step1 = max (vel_err res1) vel_step / crit_ratio * (8 / 10);
              new_width = max (vel_err res1) vel_step1 * 10;
              vmin1 = max (bv - new_width) vmin;
              vmax1 = min (bv + new_width) vmax
          in scan_loop fb minstep bv vel_step1 vmin1 vmax1))"

text \<open>
  Lines 194--200: the \<^verbatim>\<open>find_best\<close> call of the scan as a function of the grid, at the
  best-fit parameters \<^verbatim>\<open>[ret['param'][_] for _ in specParams]\<close>.
\<close>

definition scan_find_best ::
  "('sd, 'm, 'z) collab_scheme \<Rightarrow> 'sd \<Rightarrow> (string \<rightharpoonup> real) \<Rightarrow> string list \<Rightarrow> real option \<Rightarrow>
     real list \<Rightarrow> error + fb_result" where
  "scan_find_best c specdata param specParams rot vels_grid =
     (case items_of param specParams of Inl e \<Rightarrow> Inl e
      | Inr ps \<Rightarrow> find_best c specdata vels_grid [ps] rot)"

section \<open>\<^verbatim>\<open>process\<close>: final evaluation and parameter covariance (lines 209--243)\<close>

text \<open>
  The returned dictionary. Its keys are fixed, except \<^verbatim>\<open>'vsini'\<close>, which is set only when
  vsini was fitted: \<open>ret_vsini = None\<close> is the dictionary without that key. An entry of
  \<^verbatim>\<open>param_err\<close> is \<open>None\<close> where \<^verbatim>\<open>np.sqrt\<close> met a negative diagonal element.
\<close>

record 'm fit_result =
  ret_param :: "string \<rightharpoonup> real"
  ret_vsini :: "real option"
  ret_vel :: real
  ret_vel_err :: real
  ret_skewness :: real
  ret_kurtosis :: real
  ret_param_err :: "string \<rightharpoonup> real option"
  ret_yfit :: 'm
  ret_chisq :: real
  ret_chisq_array :: "real list"

text \<open>Lines 222--232.\<close>

definition hess_func ::
  "('sd, 'm, 'z) collab_scheme \<Rightarrow> 'sd \<Rightarrow> real \<Rightarrow> real option \<Rightarrow> real list \<Rightarrow> error + real" where
  "hess_func c specdata bv rot p =
     (case get_chisq c specdata bv p rot of Inl e \<Rightarrow> Inl e
      | Inr outp \<Rightarrow> Inr ((5 / 10) * chisq outp))"

text \<open>Lines 233--234.\<close>

definition hess_step :: "real list \<Rightarrow> real list" where
  "hess_step ps = map (\<lambda>x. max ((1 / 10 ^ 4) * \<bar>x\<bar>) (1 / 10 ^ 4)) ps"

text \<open>
  Lines 209--243, after the scan: \<open>param\<close>, \<open>vs\<close> and \<open>v\<close> are the entries
  \<^verbatim>\<open>ret['param']\<close>, \<^verbatim>\<open>ret['vsini']\<close> and \<^verbatim>\<open>ret['vel']\<close> already stored, \<open>bv\<close> is the working
  \<^verbatim>\<open>best_vel\<close>. No exception is caught anywhere in \<^verbatim>\<open>process\<close>.
\<close>

definition process_finish ::
  "('sd, 'm, 'z) collab_scheme \<Rightarrow> 'sd \<Rightarrow> string list \<Rightarrow> pdict \<Rightarrow> (string \<rightharpoonup> real) \<Rightarrow> real option \<Rightarrow>
     real \<Rightarrow> real \<Rightarrow> fb_result \<Rightarrow> error + 'm fit_result" where
  "process_finish c specdata specParams best_param param vs v bv res1 =
     (case items_of param specParams of Inl e \<Rightarrow> Inl e | Inr ps \<Rightarrow>
     (case get_chisq c specdata bv ps (rot_params best_param) of Inl e \<Rightarrow> Inl e | Inr outp \<Rightarrow>
     (case Hessian c (hess_func c specdata bv (rot_params best_param)) (hess_step ps) ps of
        Inl e \<Rightarrow> Inl e | Inr hessian \<Rightarrow>
     (case linalg_inv c hessian of Inl e \<Rightarrow> Inl e | Inr hessian_inv \<Rightarrow>
        Inr \<lparr> ret_param = param, ret_vsini = vs, ret_vel = v,
              ret_vel_err = vel_err res1, ret_skewness = skewness res1,
              ret_kurtosis = kurtosis res1,
              ret_param_err = dict_zip specParams (map np_sqrt (np_diag hessian_inv)),
              ret_yfit = models outp, ret_chisq = chisq outp,
              ret_chisq_array = chisq_array outp \<rparr>))))"

text \<open>
  \<^verbatim>\<open>process(specdata, paramDict0, fixParam, options, config, resolParams)\<close>. The outcome is
  what was printed together with the exception raised or the dictionary returned;
  \<open>None\<close> is a call whose velocity scan never ends.
\<close>

definition process ::
  "('sd, 'm, 'z) collab_scheme \<Rightarrow> 'sd \<Rightarrow> (string \<rightharpoonup> real) \<Rightarrow> string list option \<Rightarrow> config \<Rightarrow>
     (printed list \<times> (error + 'm fit_result)) option" where
  "process c specdata paramDict0 fixParam config =
     (case process_seed c specdata paramDict0 fixParam config of
        Inl e \<Rightarrow> Some ([], Inl e) | Inr sd \<Rightarrow>
     (let s = sd_settings sd; specParams = sd_specParams sd; fixParam1 = sd_fixParam sd;
          fitVsini = sd_fitVsini sd
      in
     (case startParam s fitVsini fixParam1 specParams paramDict0 (sd_best_vel sd) of
        Inl e \<Rightarrow> Some ([], Inl e) | Inr start \<Rightarrow>
     (case process_fit c specdata s fitVsini fixParam1 specParams paramDict0 start of
        Inl e \<Rightarrow> Some ([], Inl e) | Inr best_param \<Rightarrow>
     (let param = dict_zip specParams (params best_param);
          vs = (if fitVsini then vsini best_param else None);
          v = vel best_param;
          (out, bv) = clamp_vel s v
      in
     (case scan_loop (scan_find_best c specdata param specParams (rot_params best_param))
             (min_vel_step s) bv (vel_step0 s) (min_vel s) (max_vel s) of
        None \<Rightarrow> None
      | Some (Inl e) \<Rightarrow> Some (out, Inl e)
      | Some (Inr res1) \<Rightarrow>
          Some (out, process_finish c specdata specParams best_param param vs v bv res1)))))))"

section \<open>The batch driver (desi/desi\_fit.py)\<close>

text \<open>
  A spectral file as the driver reads it: the names of its extensions and the rows of
  its \<^verbatim>\<open>FIBERMAP\<close> table. Each row carries the \<^verbatim>\<open>SpecData\<close> list of lines 152--161,
  built from the flux, variance and mask arrays, and the three signal-to-noise values.
\<close>

record 'sd desi_row =
  mws_target :: int
  targetid :: int
  brickname :: string
  row_spec :: 'sd
  row_sns :: "real list"

record 'sd desi_file =
  extnames :: "string list"
  fibermap :: "'sd desi_row list"

record ccf_result =
  best_par :: "string \<rightharpoonup> real"
  best_vsini :: "real option"

text \<open>
  The collaborators of the driver: the fitting ones, the cross-correlation seed, the
  continuum fit, plotting, the configuration reader and the files \<^verbatim>\<open>pyfits\<close> can open.
\<close>

record ('sd, 'm) desi_collab = "('sd, 'm) collab" +
  ccf_fit :: "'sd \<Rightarrow> error + ccf_result"
  get_chisq_continuum :: "'sd \<Rightarrow> error + real list"
  make_plot :: "'sd \<Rightarrow> 'm fit_result \<Rightarrow> string \<Rightarrow> string \<Rightarrow> int \<Rightarrow> error + unit"
  read_config :: "string option \<Rightarrow> error + (string \<rightharpoonup> pyval) option"
  fits_files :: "string \<rightharpoonup> 'sd desi_file"

text \<open>One row of the output table (the columns of lines 130--137).\<close>

record out_row =
  o_brickname :: string
  o_target_id :: int
  o_vrad :: real
  o_vrad_err :: real
  o_logg :: real
  o_teff :: real
  o_alpha :: real
  o_feh :: real
  o_chisq_tot :: real
  o_chisq :: "real list"
  o_chisq_c :: "real list"
  o_sn :: "real list"
  o_vsini :: real

text \<open>What a run leaves behind: the printed lines, the tables on disk, the figures saved.\<close>

record io =
  stdout :: "printed list"
  tables :: "string \<rightharpoonup> out_row list"
  figures :: "(string \<times> string \<times> int) list"

definition say :: "io \<Rightarrow> printed list \<Rightarrow> io" where
  "say w ls = w\<lparr>stdout := stdout w @ ls\<rparr>"

text \<open>\<^verbatim>\<open>xs[i]\<close> for \<open>i \<ge> 0\<close>.\<close>

definition py_index :: "'a list \<Rightarrow> nat \<Rightarrow> error + 'a" where
  "py_index xs i = (if i < length xs then Inr (xs ! i) else Inl IndexError)"

fun py_indices :: "'a list \<Rightarrow> nat list \<Rightarrow> error + 'a list" where
  "py_indices xs [] = Inr []"
| "py_indices xs (i # js) =
     (case py_index xs i of Inl e \<Rightarrow> Inl e
      | Inr v \<Rightarrow> (case py_indices xs js of Inl e \<Rightarrow> Inl e | Inr vs \<Rightarrow> Inr (v # vs)))"

text \<open>Lines 77--82 of \<^verbatim>\<open>valid_file\<close>: the required extension names.\<close>

definition reqnames :: "string list" where
  "reqnames = ''PRIMARY'' #
     concat (map (\<lambda>a. map (\<lambda>p. a @ ''_'' @ p) [''WAVELENGTH'', ''FLUX'', ''IVAR'', ''MASK''])
               [''B'', ''R'', ''Z''])"

text \<open>Lines 83--90, on a file that \<^verbatim>\<open>pyfits.open\<close> has opened.\<close>

definition valid_file :: "'sd desi_file \<Rightarrow> printed list \<times> bool" where
  "valid_file file =
     (let missing = filter (\<lambda>curn. curn \<notin> set (extnames file)) reqnames
      in if length missing \<noteq> 0 then ([MissingExtensions missing], False) else ([], True))"

text \<open>
  Lines 179--193: the values appended to the output columns for one object, in the order
  of the lookups; \<^verbatim>\<open>res1['vsini']\<close> is read last and without a test for the key.
\<close>

definition make_row :: "'sd desi_row \<Rightarrow> 'm fit_result \<Rightarrow> real list \<Rightarrow> error + out_row" where
  "make_row r res1 chisq_cont_array =
     (case dict_item (ret_param res1) ''logg'' of Inl e \<Rightarrow> Inl e | Inr logg \<Rightarrow>
     (case dict_item (ret_param res1) ''teff'' of Inl e \<Rightarrow> Inl e | Inr teff \<Rightarrow>
     (case dict_item (ret_param res1) ''alpha'' of Inl e \<Rightarrow> Inl e | Inr alpha \<Rightarrow>
     (case dict_item (ret_param res1) ''feh'' of Inl e \<Rightarrow> Inl e | Inr feh \<Rightarrow>
     (case py_indices (ret_chisq_array res1) [0, 1, 2] of Inl e \<Rightarrow> Inl e | Inr chis \<Rightarrow>
     (case py_indices chisq_cont_array [0, 1, 2] of Inl e \<Rightarrow> Inl e | Inr conts \<Rightarrow>
     (case py_indices (row_sns r) [0, 1, 2] of Inl e \<Rightarrow> Inl e | Inr sns \<Rightarrow>
     (case ret_vsini res1 of None \<Rightarrow> Inl (KeyError ''vsini'') | Some w \<Rightarrow>
        Inr \<lparr> o_brickname = brickname r, o_target_id = targetid r,
              o_vrad = ret_vel res1, o_vrad_err = ret_vel_err res1,
              o_logg = logg, o_teff = teff, o_alpha = alpha, o_feh = feh,
              o_chisq_tot = sum_list (ret_chisq_array res1),
              o_chisq = chis, o_chisq_c = conts, o_sn = sns, o_vsini = w \<rparr>))))))))"

text \<open>
  Lines 163--198, the body of the loop over the selected objects once the spectra are
  built. The figure is recorded by prefix, brick name and target identifier, from which
  the source formats its file name.
\<close>

definition proc_object ::
  "('sd, 'm) desi_collab \<Rightarrow> (string \<rightharpoonup> pyval) option \<Rightarrow> string \<Rightarrow> 'sd desi_row \<Rightarrow> io \<Rightarrow>
     (io \<times> (error + out_row)) option" where
  "proc_object env config fig_prefix r w =
     (case ccf_fit env (row_spec r) of Inl e \<Rightarrow> Some (w, Inl e) | Inr res \<Rightarrow>
     (let paramDict0 = (case best_vsini res of None \<Rightarrow> best_par res
                        | Some x \<Rightarrow> (best_par res)(''vsini'' \<mapsto> x))
      in
     (case process env (row_spec r) paramDict0 (Some []) config of
        None \<Rightarrow> None
      | Some (out, Inl e) \<Rightarrow> Some (say w out, Inl e)
      | Some (out, Inr res1) \<Rightarrow>
     (case get_chisq_continuum env (row_spec r) of
        Inl e \<Rightarrow> Some (say w out, Inl e) | Inr chisq_cont_array \<Rightarrow>
     (case make_row r res1 chisq_cont_array of
        Inl e \<Rightarrow> Some (say w out, Inl e) | Inr row \<Rightarrow>
     (case make_plot env (row_spec r) res1 fig_prefix (brickname r) (targetid r) of
        Inl e \<Rightarrow> Some (say w out, Inl e)
      | Inr _ \<Rightarrow>
          Some ((say w out)\<lparr>figures := figures w @ [(fig_prefix, brickname r, targetid r)]\<rparr>,
                Inr row)))))))"

text \<open>Lines 142--198: the loop over the objects, \<open>rows\<close> being the table so far.\<close>

fun proc_objects ::
  "('sd, 'm) desi_collab \<Rightarrow> (string \<rightharpoonup> pyval) option \<Rightarrow> string \<Rightarrow> int option \<Rightarrow>
     'sd desi_row list \<Rightarrow> io \<Rightarrow> out_row list \<Rightarrow> (io \<times> (error + out_row list)) option" where
  "proc_objects env config fig_prefix fit_targetid [] w rows = Some (w, Inr rows)"
| "proc_objects env config fig_prefix fit_targetid (r # rs) w rows =
     (if fit_targetid \<noteq> None \<and> Some (targetid r) \<noteq> fit_targetid then
        proc_objects env config fig_prefix fit_targetid rs w rows
      else
        (case proc_object env config fig_prefix r w of
           None \<Rightarrow> None
         | Some (w1, Inl e) \<Rightarrow> Some (w1, Inl e)
         | Some (w1, Inr row) \<Rightarrow>
             proc_objects env config fig_prefix fit_targetid rs w1 (rows @ [row])))"

text \<open>
  \<^verbatim>\<open>proc_desi(fname, ofname, fig_prefix, config, fit_targetid)\<close>, lines 93--200. The
  table is written only after the loop over the objects has ended without an exception.
\<close>

definition proc_desi ::
  "('sd, 'm) desi_collab \<Rightarrow>
     string \<times> string \<times> string \<times> (string \<rightharpoonup> pyval) option \<times> int option \<Rightarrow> io \<Rightarrow>
     (io \<times> (error + unit)) option" where
  "proc_desi env args w =
     (case args of (fname, ofname, fig_prefix, config, fit_targetid) \<Rightarrow>
     (let w1 = say w [Processing fname] in
     (case fits_files env fname of None \<Rightarrow> Some (w1, Inl IOError) | Some file \<Rightarrow>
     (case valid_file file of (msgs, ok) \<Rightarrow>
        if \<not> ok then Some (say w1 msgs, Inr ())
        else if ''FIBERMAP'' \<notin> set (extnames file) then Some (w1, Inl (KeyError ''FIBERMAP''))
        else
          (let xids = filter (\<lambda>r. mws_target r \<noteq> 0) (fibermap file) in
          (case proc_objects env config fig_prefix fit_targetid xids w1 [] of
             None \<Rightarrow> None
           | Some (w2, Inl e) \<Rightarrow> Some (w2, Inl e)
           | Some (w2, Inr rows) \<Rightarrow>
               Some (w2\<lparr>tables := (tables w2)(ofname \<mapsto> rows)\<rparr>, Inr ())))))))"

text \<open>Lines 203--208: \<^verbatim>\<open>try: proc_desi(...) except: print(...); raise\<close>.\<close>

definition proc_desi_wrapper ::
  "('sd, 'm) desi_collab \<Rightarrow>
     string \<times> string \<times> string \<times> (string \<rightharpoonup> pyval) option \<times> int option \<Rightarrow> io \<Rightarrow>
     (io \<times> (error + unit)) option" where
  "proc_desi_wrapper env args w =
     (case proc_desi env args w of
        None \<Rightarrow> None
      | Some (w1, Inl e) \<Rightarrow> Some (say w1 [FailedWith args], Inl e)
      | Some (w1, Inr u) \<Rightarrow> Some (w1, Inr u))"

text \<open>\<^verbatim>\<open>f.split('/')[-1]\<close>: what follows the last slash.\<close>

definition basename :: "string \<Rightarrow> string" where
  "basename f = rev (takeWhile (\<lambda>ch. ch \<noteq> CHR ''/'') (rev f))"

text \<open>
  Lines 245--258, the loop over the files. With \<open>parallel\<close> the call is handed to the
  process pool: the model runs it when it is submitted, its exception stays in the
  future, which \<^verbatim>\<open>proc_many\<close> never reads, and the loop goes on. Without \<open>parallel\<close> the
  call is made in place and its exception leaves the loop.
\<close>

fun proc_files ::
  "('sd, 'm) desi_collab \<Rightarrow> bool \<Rightarrow> bool \<Rightarrow> string \<Rightarrow> string \<Rightarrow> (string \<rightharpoonup> pyval) option \<Rightarrow>
     int option \<Rightarrow> string list \<Rightarrow> io \<Rightarrow> (io \<times> (error + unit)) option" where
  "proc_files env parallel overwrite oprefix fig_prefix config tid [] w = Some (w, Inr ())"
| "proc_files env parallel overwrite oprefix fig_prefix config tid (f # fs) w =
     (let fname = basename f; ofname = oprefix @ ''outtab_'' @ fname in
      if (\<not> overwrite) \<and> tables w ofname \<noteq> None then
        proc_files env parallel overwrite oprefix fig_prefix config tid fs (say w [Skipping f])
      else
        (case proc_desi_wrapper env (f, ofname, fig_prefix, config, tid) w of
           None \<Rightarrow> None
         | Some (w1, Inl e) \<Rightarrow>
             if parallel then
               proc_files env parallel overwrite oprefix fig_prefix config tid fs w1
             else Some (w1, Inl e)
         | Some (w1, Inr u) \<Rightarrow>
             proc_files env parallel overwrite oprefix fig_prefix config tid fs w1))"

text \<open>\<^verbatim>\<open>proc_many(files, oprefix, fig_prefix, config, nthreads, overwrite, targetid)\<close>.\<close>

definition proc_many ::
  "('sd, 'm) desi_collab \<Rightarrow> string list \<Rightarrow> string \<Rightarrow> string \<Rightarrow> string option \<Rightarrow> int \<Rightarrow> bool \<Rightarrow>
     int option \<Rightarrow> io \<Rightarrow> (io \<times> (error + unit)) option" where
  "proc_many env files oprefix fig_prefix config nthreads overwrite tid w =
     (case read_config env config of Inl e \<Rightarrow> Some (w, Inl e) | Inr cfg \<Rightarrow>
        proc_files env (nthreads > 1) overwrite oprefix fig_prefix cfg tid files w)"

section \<open>Sample inputs\<close>

text \<open>
  Inputs on which the statements below are instantiated. \<open>sample_env\<close> describes one run of
  the collaborators: the parameter space is \<^verbatim>\<open>teff, logg, feh, alpha\<close>; the chi-square is
  \<open>1\<close> per arm plus the squared distance of the parameters from \<open>(5000, 3, -1, 0)\<close>, the
  same at every velocity; every grid search reports a velocity uncertainty of 100; the
  optimizer returns its start vector, which is that minimum; the Hessian of half the
  chi-square is the identity, and \<open>linalg_inv\<close> inverts it and rejects any other matrix;
  the cross-correlation seed has no vsini; the files \<^verbatim>\<open>a.fits\<close> and \<^verbatim>\<open>b.fits\<close> hold one
  target each. \<open>prior\<close> is a run that starts with nothing printed and no table on disk.
\<close>

definition sample_par :: "string \<rightharpoonup> real" where
  "sample_par = [''teff'' \<mapsto> 5000, ''logg'' \<mapsto> 3, ''feh'' \<mapsto> - 1, ''alpha'' \<mapsto> 0]"

definition sample_names :: "string list" where
  "sample_names = [''teff'', ''logg'', ''feh'', ''alpha'']"

definition identity4 :: "real list list" where
  "identity4 = [[1, 0, 0, 0], [0, 1, 0, 0], [0, 0, 1, 0], [0, 0, 0, 1]]"

definition zero4 :: "real list list" where
  "zero4 = [[0, 0, 0, 0], [0, 0, 0, 0], [0, 0, 0, 0], [0, 0, 0, 0]]"

definition sample_found :: fb_result where
  "sample_found = \<lparr> best_vel = 120, vel_err = 100, skewness = 0, kurtosis = 3 \<rparr>"

definition sample_fit :: "real \<Rightarrow> real list \<Rightarrow> unit chisq_output" where
  "sample_fit base ps =
     (let d = sum_list (map (\<lambda>(p, q). (p - q) ^ 2) (zip ps [5000, 3, - 1, 0]))
      in \<lparr> chisq = 3 * base + d, chisq_array = [base, base, base + d], models = () \<rparr>)"

definition sample_file :: "nat desi_file" where
  "sample_file =
     \<lparr> extnames = ''FIBERMAP'' # reqnames,
       fibermap = [\<lparr> mws_target = 1, targetid = 7, brickname = ''b1'', row_spec = 0,
                     row_sns = [30, 30, 30] \<rparr>] \<rparr>"

definition sample_env :: "(nat, unit) desi_collab" where
  "sample_env =
     \<lparr> getSpecParams = (\<lambda>sd. Inr sample_names),
       param_dict_to_tuple = (\<lambda>d sd. items_of d sample_names),
       find_best = (\<lambda>sd grid ps rot. Inr sample_found),
       get_chisq = (\<lambda>sd v ps rot. Inr (sample_fit 1 ps)),
       minimize = (\<lambda>f start. Inr start),
       Hessian = (\<lambda>f step x. Inr identity4),
       linalg_inv = (\<lambda>m. if m = identity4 then Inr identity4 else Inl LinAlgError),
       ccf_fit = (\<lambda>sd. Inr \<lparr> best_par = sample_par, best_vsini = None \<rparr>),
       get_chisq_continuum = (\<lambda>sd. Inr [2, 2, 2]),
       make_plot = (\<lambda>sd res1 fig_prefix brick tid. Inr ()),
       read_config = (\<lambda>fname. Inr (Some Map.empty)),
       fits_files = [''a.fits'' \<mapsto> sample_file, ''b.fits'' \<mapsto> sample_file] \<rparr>"

text \<open>
  \<open>flat_env\<close>: the chi-square does not depend on the parameters, so the Hessian is the
  zero matrix, which is singular.
\<close>

definition flat_env :: "(nat, unit) desi_collab" where
  "flat_env =
     sample_env\<lparr> get_chisq := (\<lambda>sd v ps rot. Inr (sample_fit 1 [5000, 3, - 1, 0])),
                 Hessian := (\<lambda>f step x. Inr zero4) \<rparr>"

text \<open>
  \<open>steep_env\<close>: every chi-square inside the velocity bounds is above the sentinel
  \<^verbatim>\<open>1e30\<close> of the objective, and the optimizer ends at the velocity 2000, outside the
  bounds, where the objective is the sentinel.
\<close>

definition steep_env :: "(nat, unit) desi_collab" where
  "steep_env =
     sample_env\<lparr> get_chisq := (\<lambda>sd v ps rot. Inr (sample_fit (10 ^ 30) ps)),
                 minimize := (\<lambda>f start. Inr (2000 # tl start)) \<rparr>"

definition default_settings :: settings where
  "default_settings =
     \<lparr> min_vel = - 1000, max_vel = 1000, vel_step0 = 5, max_vsini = 500,
       min_vsini = 1 / 100, min_vel_step = 2 / 10 \<rparr>"

definition prior :: io where
  "prior = \<lparr> stdout = [], tables = Map.empty, figures = [] \<rparr>"

section \<open>Configuration\<close>

lemma read_settings_Some:
  "read_settings (Some d) =
     Inr \<lparr> min_vel = py_or (dict_get d ''min_vel'') (- 1000),
           max_vel = py_or (dict_get d ''max_vel'') 1000,
           vel_step0 = py_or (dict_get d ''vel_step0'') 5,
           max_vsini = py_or (dict_get d ''max_vsini'') 500,
           min_vsini = py_or (dict_get d ''min_vsini'') (1 / 100),
           min_vel_step = py_or (dict_get d ''min_vel_step'') (2 / 10) \<rparr>"
  by (simp add: read_settings_def config_get_def)

lemma py_or_absent: "d k = None \<Longrightarrow> py_or (dict_get d k) dflt = dflt"
  by (simp add: dict_get_def)

lemma py_or_present: "d k = Some (PNum x) \<Longrightarrow> x \<noteq> 0 \<Longrightarrow> py_or (dict_get d k) dflt = x"
  by (simp add: dict_get_def)

lemma py_or_falsy: "d k = Some v \<Longrightarrow> \<not> truthy v \<Longrightarrow> py_or (dict_get d k) dflt = dflt"
  by (cases v) (simp_all add: dict_get_def)

lemma check_config_empty: "check_config (Some Map.empty) = Inr default_settings"
  by (simp add: check_config_def read_settings_Some dict_get_def default_settings_def)

text \<open>
  C2. A call of \<^verbatim>\<open>process\<close> with \<^verbatim>\<open>config=None\<close> is meant to be reported as the
  configuration error \<^verbatim>\<open>Exception('Config must be provided')\<close>. The code reads the six
  options before it tests for \<^verbatim>\<open>None\<close>, so what the call raises is the
  \<^verbatim>\<open>AttributeError\<close> of \<^verbatim>\<open>config.get\<close>, and nothing is printed; the test of line 66
  is never reached with \<^verbatim>\<open>None\<close>.
\<close>

theorem process_without_config:
  "process c specdata paramDict0 fixParam None = Some ([], Inl AttributeError)
   \<and> AttributeError \<noteq> Exception ''Config must be provided''"
  by (simp add: process_def process_seed_def check_config_def read_settings_def config_get_def)

text \<open>
  C7. An option that is present in the mapping is meant to be used as given. For the
  configuration \<^verbatim>\<open>{'min_vel': 0}\<close> the code takes the default \<open>-1000\<close> for \<^verbatim>\<open>min_vel\<close>,
  since \<^verbatim>\<open>config.get('min_vel') or -1000\<close> treats the value zero as absent.
\<close>

theorem zero_option_replaced:
  "check_config (Some [''min_vel'' \<mapsto> PNum 0]) =
     Inr \<lparr> min_vel = - 1000, max_vel = 1000, vel_step0 = 5, max_vsini = 500,
           min_vsini = 1 / 100, min_vel_step = 2 / 10 \<rparr>"
  by (simp add: check_config_def read_settings_Some dict_get_def)

section \<open>The vsini transform\<close>




lemma vsini_assert_default: "vsini_assert default_settings"
  by (simp add: vsini_assert_def mapVsini_def mapVsiniInv_def np_log_def np_clip_def
      allclose_def default_settings_def)



section \<open>The velocity scan\<close>


text \<open>
  C5. One pass of the scan loop whose grid is built and whose \<^verbatim>\<open>find_best\<close> call returns
  \<open>res1\<close>: the loop ends with \<open>res1\<close> when the step is smaller than
  \<^verbatim>\<open>vel_err / crit_ratio\<close> or smaller than \<^verbatim>\<open>min_vel_step\<close> (either of the two);
  otherwise the step becomes \<^verbatim>\<open>max(vel_err, step) / crit_ratio * 0.8\<close>, the velocity range
  is narrowed to within ten times \<^verbatim>\<open>max(vel_err, new step)\<close> of the best velocity, and the
  loop goes on.
\<close>

theorem scan_exit_either:
  assumes "scan_grid bv vmin vmax vel_step = Inr g" and "fb g = Inr res1"
  shows "scan_loop fb minstep bv vel_step vmin vmax =
           (if vel_step < vel_err res1 / crit_ratio \<or> vel_step < minstep then Some (Inr res1)
            else scan_loop fb minstep bv (max (vel_err res1) vel_step / crit_ratio * (8 / 10))
                   (max (bv - max (vel_err res1)
                            (max (vel_err res1) vel_step / crit_ratio * (8 / 10)) * 10) vmin)
                   (min (bv + max (vel_err res1)
                            (max (vel_err res1) vel_step / crit_ratio * (8 / 10)) * 10) vmax))"
  using assms by (subst scan_loop.simps) (simp add: Let_def)

theorem scan_exit_either_witness:
  "scan_grid 0 (- 1000) 1000 5 = Inr (rev (arange_values 0 (- 1000) (- 5)) @ arange_values 5 1000 5)
   \<and> scan_loop (\<lambda>g. Inr (sample_found\<lparr>vel_err := 10\<rparr>)) (2 / 10) 0 5 (- 1000) 1000 =
       scan_loop (\<lambda>g. Inr (sample_found\<lparr>vel_err := 10\<rparr>)) (2 / 10) 0 (16 / 10) (- 100) 100"
  using scan_exit_either [of 0 "- 1000" 1000 5
      "rev (arange_values 0 (- 1000) (- 5)) @ arange_values 5 1000 5"
      "\<lambda>g. Inr (sample_found\<lparr>vel_err := 10\<rparr>)" "sample_found\<lparr>vel_err := 10\<rparr>" "2 / 10"]
  by (simp add: scan_grid_def arange_def crit_ratio_def sample_found_def)

text \<open>
  The loop below ends on its first pass although only one of the two tests holds: the
  step 5 is smaller than \<open>100 / 5\<close> and not smaller than the floor \<open>0.2\<close>.
\<close>

theorem scan_exit_counterexample:
  "scan_loop (\<lambda>g. Inr sample_found) (2 / 10) 0 5 (- 1000) 1000 = Some (Inr sample_found)
   \<and> \<not> ((5::real) < vel_err sample_found / crit_ratio \<and> (5::real) < 2 / 10)"
  by (subst scan_loop.simps)
     (simp add: scan_grid_def arange_def crit_ratio_def sample_found_def)








section \<open>Runs on the sample inputs\<close>

lemma items_sample: "items_of sample_par sample_names = Inr [5000, 3, - 1, 0]"
  by (simp add: sample_par_def sample_names_def dict_item_def)

lemma dict_zip_sample: "dict_zip sample_names [5000, 3, - 1, 0] = sample_par"
  by (simp add: dict_zip_def sample_names_def sample_par_def)

lemma map_params_free:
  "length p = length xs \<Longrightarrow> map_params xs [] d p = Inr (p, [])"
  by (induction xs arbitrary: p) (auto simp: length_Suc_conv)

lemma paramMapper_sample:
  "paramMapper s False [] sample_names sample_par [v, a, b, c, d] =
     Inr \<lparr> vel = v, vsini = None, rot_params = None, params = [a, b, c, d] \<rparr>"
  by (simp add: paramMapper_def map_params_free sample_names_def)

lemma startParam_sample:
  "startParam default_settings False [] sample_names sample_par v = Inr [v, 5000, 3, - 1, 0]"
  by (simp add: startParam_def sample_names_def sample_par_def dict_item_def)

lemma sample_fit_at: "sample_fit base [5000, 3, - 1, 0] = \<lparr> chisq = 3 * base, chisq_array = [base, base, base], models = () \<rparr>"
  by (simp add: sample_fit_def)

lemma process_seed_sample:
  assumes "getSpecParams c sd = Inr sample_names"
    and "param_dict_to_tuple c sample_par sd = Inr cur"
    and "\<And>g ps rot. find_best c sd g ps rot = Inr sample_found"
  shows "process_seed c sd sample_par (Some []) (Some Map.empty) =
     Inr \<lparr> sd_settings = default_settings, sd_specParams = sample_names, sd_fixParam = [],
           sd_fitVsini = False, sd_best_vel = 120 \<rparr>"
proof -
  have ar: "arange (min_vel default_settings) (max_vel default_settings) (vel_step0 default_settings)
      = Inr (arange_values (- 1000) 1000 5)"
    by (simp add: arange_def default_settings_def)
  have nv: "sample_par ''vsini'' = None"
    by (simp add: sample_par_def)
  show ?thesis
    by (simp add: process_seed_def check_config_empty vsini_assert_default ar assms nv
        sample_found_def)
qed

lemma scan_sample:
  assumes "\<And>g ps rot. find_best c sd g ps rot = Inr sample_found"
  shows "scan_loop (scan_find_best c sd sample_par sample_names None)
           (min_vel_step default_settings) bv (vel_step0 default_settings)
           (min_vel default_settings) (max_vel default_settings) = Some (Inr sample_found)"
  by (subst scan_loop.simps)
     (simp add: scan_grid_def arange_def scan_find_best_def items_sample assms
        default_settings_def crit_ratio_def sample_found_def)

lemma process_sample:
  assumes "getSpecParams c sd = Inr sample_names"
    and "param_dict_to_tuple c sample_par sd = Inr cur"
    and "\<And>g ps rot. find_best c sd g ps rot = Inr sample_found"
    and "\<And>v rot. get_chisq c sd v [5000, 3, - 1, 0] rot = Inr (sample_fit base [5000, 3, - 1, 0])"
    and "\<And>f. minimize c f [120, 5000, 3, - 1, 0] = Inr [v, 5000, 3, - 1, 0]"
    and "\<And>f st x. Hessian c f st x = Inr H"
  shows "process c sd sample_par (Some []) (Some Map.empty) =
     Some (fst (clamp_vel default_settings v),
       case linalg_inv c H of Inl e \<Rightarrow> Inl e
       | Inr Hi \<Rightarrow> Inr \<lparr> ret_param = sample_par, ret_vsini = None, ret_vel = v,
              ret_vel_err = 100, ret_skewness = 0, ret_kurtosis = 3,
              ret_param_err = dict_zip sample_names (map np_sqrt (np_diag Hi)),
              ret_yfit = (), ret_chisq = 3 * base, ret_chisq_array = [base, base, base] \<rparr>)"
proof -
  have fit: "process_fit c sd default_settings False [] sample_names sample_par [120, 5000, 3, - 1, 0]
      = Inr \<lparr> vel = v, vsini = None, rot_params = None, params = [5000, 3, - 1, 0] \<rparr>"
    by (simp add: process_fit_def assms paramMapper_sample)
  show ?thesis
    by (simp add: process_def process_seed_sample [OF assms(1,2,3)] startParam_sample fit
        dict_zip_sample scan_sample [OF assms(3)] split_beta process_finish_def items_sample
        assms sample_found_def sample_fit_at split: sum.splits)
qed

lemma process_sample_env:
  "process sample_env 0 sample_par (Some []) (Some Map.empty) =
     Some ([], Inr \<lparr> ret_param = sample_par, ret_vsini = None, ret_vel = 120,
              ret_vel_err = 100, ret_skewness = 0, ret_kurtosis = 3,
              ret_param_err = dict_zip sample_names (map np_sqrt (np_diag identity4)),
              ret_yfit = (), ret_chisq = 3, ret_chisq_array = [1, 1, 1] \<rparr>)"
  using process_sample [of sample_env 0 "[5000, 3, - 1, 0]" 1 120 identity4]
  by (simp add: sample_env_def items_sample clamp_vel_def default_settings_def)

lemma process_flat_env:
  "process flat_env 0 sample_par (Some []) (Some Map.empty) = Some ([], Inl LinAlgError)"
  using process_sample [of flat_env 0 "[5000, 3, - 1, 0]" 1 120 zero4]
  by (simp add: flat_env_def sample_env_def items_sample clamp_vel_def default_settings_def
      identity4_def zero4_def)


section \<open>The objective of the optimizer\<close>

lemma paramMapper_vel:
  "paramMapper s fitVsini fixParam specParams paramDict0 p = Inr pd \<Longrightarrow> p \<noteq> [] \<and> vel pd = hd p"
  unfolding paramMapper_def
  by (auto split: list.splits sum.splits if_splits prod.splits)

text \<open>
  C8. For a parameter vector that \<^verbatim>\<open>paramMapper\<close> accepts, the velocity is the first
  component. When it lies outside \<^verbatim>\<open>[min_vel, max_vel]\<close> the objective returns the
  sentinel \<^verbatim>\<open>1e30\<close> whatever the collaborators are, so no chi-square is evaluated. For a
  spectrum all of whose chi-square values are below the sentinel, every value the
  objective returns at a velocity inside the bounds is strictly below the sentinel.
\<close>

theorem objective_sentinel:
  assumes pm: "paramMapper s fitVsini fixParam specParams paramDict0 p = Inr pd"
      and bounded: "\<forall>v ps rot outp. get_chisq c specdata v ps rot = Inr outp \<longrightarrow> chisq outp < sentinel"
  shows "vel pd = hd p
       \<and> (hd p > max_vel s \<or> hd p < min_vel s \<longrightarrow>
            func c1 specdata1 s fitVsini fixParam specParams paramDict0 p = Inr sentinel)
       \<and> (\<forall>q x. \<not> (hd q > max_vel s \<or> hd q < min_vel s) \<longrightarrow>
            func c specdata s fitVsini fixParam specParams paramDict0 q = Inr x \<longrightarrow> x < sentinel)"
proof (intro conjI allI impI)
  show v: "vel pd = hd p" using paramMapper_vel [OF pm] by simp
  show "func c1 specdata1 s fitVsini fixParam specParams paramDict0 p = Inr sentinel"
    if "hd p > max_vel s \<or> hd p < min_vel s"
    using that pm v by (simp add: func_def)
next
  fix q x
  assume inb: "\<not> (hd q > max_vel s \<or> hd q < min_vel s)"
     and fq: "func c specdata s fitVsini fixParam specParams paramDict0 q = Inr x"
  from fq obtain qd where qd: "paramMapper s fitVsini fixParam specParams paramDict0 q = Inr qd"
    by (auto simp: func_def split: sum.splits)
  then have "vel qd = hd q" using paramMapper_vel by blast
  with fq qd inb obtain outp where
    "get_chisq c specdata (vel qd) (params qd) (rot_params qd) = Inr outp" "x = chisq outp"
    by (auto simp: func_def split: sum.splits if_splits)
  then show "x < sentinel" using bounded by blast
qed

theorem objective_sentinel_witness:
  "paramMapper default_settings False [] sample_names sample_par [2000, 5000, 3, - 1, 0] =
     Inr \<lparr> vel = 2000, vsini = None, rot_params = None, params = [5000, 3, - 1, 0] \<rparr>
   \<and> 2000 > max_vel default_settings
   \<and> func steep_env (0::nat) default_settings False [] sample_names sample_par
        [2000, 5000, 3, - 1, 0] = Inr sentinel
   \<and> min_vel default_settings \<le> 120 \<and> 120 \<le> max_vel default_settings
   \<and> func flat_env (0::nat) default_settings False [] sample_names sample_par
        [120, 5000, 3, - 1, 0] = Inr 3
   \<and> (3::real) < sentinel"
proof -
  have b: "\<forall>v ps rot outp. get_chisq flat_env (0::nat) v ps rot = Inr outp \<longrightarrow> chisq outp < sentinel"
    by (auto simp: flat_env_def sample_env_def sample_fit_at sentinel_def)
  have f: "func flat_env (0::nat) default_settings False [] sample_names sample_par
        [120, 5000, 3, - 1, 0] = Inr 3"
    by (simp add: func_def paramMapper_sample default_settings_def flat_env_def sample_env_def
        sample_fit_at)
  have pm: "paramMapper default_settings False [] sample_names sample_par [2000, 5000, 3, - 1, 0] =
     Inr \<lparr> vel = 2000, vsini = None, rot_params = None, params = [5000, 3, - 1, 0] \<rparr>"
    by (rule paramMapper_sample)
  note t = objective_sentinel [OF pm b, where ?c1.0 = steep_env and ?specdata1.0 = "0::nat"]
  have inb: "\<not> (hd [120, 5000, 3, - 1, 0] > max_vel default_settings
      \<or> hd [120, 5000, 3, - 1, 0] < min_vel default_settings)"
    by (simp add: default_settings_def)
  have lt: "(3::real) < sentinel"
    using t inb f by blast
  have out: "func steep_env (0::nat) default_settings False [] sample_names sample_par
        [2000, 5000, 3, - 1, 0] = Inr sentinel"
    using t by (simp add: default_settings_def)
  show ?thesis
    using pm b f lt out by (simp add: default_settings_def)
qed

section \<open>The stages of \<^verbatim>\<open>process\<close>\<close>

lemma process_resultD:
  assumes "process c specdata paramDict0 fixParam config = Some (out, Inr ret)"
  obtains seed start bp res1 where
    "process_seed c specdata paramDict0 fixParam config = Inr seed"
    "startParam (sd_settings seed) (sd_fitVsini seed) (sd_fixParam seed) (sd_specParams seed)
        paramDict0 (sd_best_vel seed) = Inr start"
    "process_fit c specdata (sd_settings seed) (sd_fitVsini seed) (sd_fixParam seed)
        (sd_specParams seed) paramDict0 start = Inr bp"
    "out = fst (clamp_vel (sd_settings seed) (vel bp))"
    "scan_loop (scan_find_best c specdata (dict_zip (sd_specParams seed) (params bp))
          (sd_specParams seed) (rot_params bp))
        (min_vel_step (sd_settings seed)) (snd (clamp_vel (sd_settings seed) (vel bp)))
        (vel_step0 (sd_settings seed)) (min_vel (sd_settings seed)) (max_vel (sd_settings seed))
      = Some (Inr res1)"
    "process_finish c specdata (sd_specParams seed) bp
        (dict_zip (sd_specParams seed) (params bp))
        (if sd_fitVsini seed then vsini bp else None) (vel bp)
        (snd (clamp_vel (sd_settings seed) (vel bp))) res1 = Inr ret"
  using assms unfolding process_def Let_def
  by (auto split: sum.splits option.splits prod.splits)

lemma process_finishD:
  assumes "process_finish c specdata specParams bp param vs v bv res1 = Inr ret"
  obtains ps outp H Hi where
    "items_of param specParams = Inr ps"
    "get_chisq c specdata bv ps (rot_params bp) = Inr outp"
    "Hessian c (hess_func c specdata bv (rot_params bp)) (hess_step ps) ps = Inr H"
    "linalg_inv c H = Inr Hi"
    "ret = \<lparr> ret_param = param, ret_vsini = vs, ret_vel = v,
              ret_vel_err = vel_err res1, ret_skewness = skewness res1,
              ret_kurtosis = kurtosis res1,
              ret_param_err = dict_zip specParams (map np_sqrt (np_diag Hi)),
              ret_yfit = models outp, ret_chisq = chisq outp,
              ret_chisq_array = chisq_array outp \<rparr>"
  using assms unfolding process_finish_def
  by (auto split: sum.splits)

lemma process_seedD:
  assumes "process_seed c specdata paramDict0 fixParam config = Inr seed"
  shows "check_config config = Inr (sd_settings seed)"
    and "getSpecParams c specdata = Inr (sd_specParams seed)"
    and "sd_fitVsini seed \<longrightarrow> ''vsini'' \<in> dom paramDict0"
  using assms unfolding process_seed_def Let_def
  by (auto split: sum.splits if_splits option.splits)





text \<open>
  C4. A call of \<^verbatim>\<open>process\<close> returns a result only if the Hessian of its last stage was
  inverted, and the parameter uncertainties of the result come from that inverse. When
  \<^verbatim>\<open>scipy.linalg.inv\<close> raises on the Hessian, the last stage raises that same exception:
  nothing in \<^verbatim>\<open>process\<close> catches it, so no velocity, parameters, chi-square or models are
  returned.
\<close>

theorem singular_hessian_raises:
  "(process c specdata paramDict0 fixParam config = Some (out, Inr ret) \<longrightarrow>
      (\<exists>specParams bv rot ps H Hi.
          getSpecParams c specdata = Inr specParams
        \<and> Hessian c (hess_func c specdata bv rot) (hess_step ps) ps = Inr H
        \<and> linalg_inv c H = Inr Hi
        \<and> ret_param_err ret = dict_zip specParams (map np_sqrt (np_diag Hi))))
   \<and> (items_of param specParams = Inr ps
        \<and> get_chisq c specdata bv ps (rot_params bp) = Inr outp
        \<and> Hessian c (hess_func c specdata bv (rot_params bp)) (hess_step ps) ps = Inr H
        \<and> linalg_inv c H = Inl e \<longrightarrow>
      process_finish c specdata specParams bp param vs v bv res1 = Inl e)"
proof (intro conjI impI)
  assume "process c specdata paramDict0 fixParam config = Some (out, Inr ret)"
  then obtain seed :: seed and bp :: pdict and res1 where
    seed: "process_seed c specdata paramDict0 fixParam config = Inr seed"
    and fin: "process_finish c specdata (sd_specParams seed) bp
        (dict_zip (sd_specParams seed) (params bp))
        (if sd_fitVsini seed then vsini bp else None) (vel bp)
        (snd (clamp_vel (sd_settings seed) (vel bp))) res1 = Inr ret"
    by (auto elim: process_resultD)
  from fin obtain ps H Hi where
    "Hessian c (hess_func c specdata (snd (clamp_vel (sd_settings seed) (vel bp))) (rot_params bp))
       (hess_step ps) ps = Inr H"
    "linalg_inv c H = Inr Hi"
    "ret_param_err ret = dict_zip (sd_specParams seed) (map np_sqrt (np_diag Hi))"
    by (auto elim: process_finishD)
  then show "\<exists>specParams bv rot ps H Hi.
          getSpecParams c specdata = Inr specParams
        \<and> Hessian c (hess_func c specdata bv rot) (hess_step ps) ps = Inr H
        \<and> linalg_inv c H = Inr Hi
        \<and> ret_param_err ret = dict_zip specParams (map np_sqrt (np_diag Hi))"
    using process_seedD(2) [OF seed] by blast
next
  assume "items_of param specParams = Inr ps
        \<and> get_chisq c specdata bv ps (rot_params bp) = Inr outp
        \<and> Hessian c (hess_func c specdata bv (rot_params bp)) (hess_step ps) ps = Inr H
        \<and> linalg_inv c H = Inl e"
  then show "process_finish c specdata specParams bp param vs v bv res1 = Inl e"
    by (simp add: process_finish_def)
qed

theorem singular_hessian_raises_witness:
  "process sample_env 0 sample_par (Some []) (Some Map.empty) =
       Some ([], Inr \<lparr> ret_param = sample_par, ret_vsini = None, ret_vel = 120,
              ret_vel_err = 100, ret_skewness = 0, ret_kurtosis = 3,
              ret_param_err = dict_zip sample_names (map np_sqrt (np_diag identity4)),
              ret_yfit = (), ret_chisq = 3, ret_chisq_array = [1, 1, 1] \<rparr>)
   \<and> (\<exists>H Hi. linalg_inv sample_env H = Inr Hi)
   \<and> items_of sample_par sample_names = Inr [5000, 3, - 1, 0]
   \<and> get_chisq flat_env 0 120 [5000, 3, - 1, 0] None = Inr (sample_fit 1 [5000, 3, - 1, 0])
   \<and> Hessian flat_env (hess_func flat_env 0 120 None) (hess_step [5000, 3, - 1, 0])
        [5000, 3, - 1, 0] = Inr zero4
   \<and> linalg_inv flat_env zero4 = Inl LinAlgError
   \<and> process_finish flat_env 0 sample_names
        \<lparr> vel = 120, vsini = None, rot_params = None, params = [5000, 3, - 1, 0] \<rparr>
        sample_par None 120 120 sample_found = Inl LinAlgError"
proof -
  have flat: "get_chisq flat_env 0 120 [5000, 3, - 1, 0] None = Inr (sample_fit 1 [5000, 3, - 1, 0])
     \<and> Hessian flat_env (hess_func flat_env 0 120 None) (hess_step [5000, 3, - 1, 0])
          [5000, 3, - 1, 0] = Inr zero4
     \<and> linalg_inv flat_env zero4 = Inl LinAlgError"
    by (simp add: flat_env_def sample_env_def zero4_def identity4_def)
  note t1 = singular_hessian_raises [where c = sample_env and specdata = 0
      and ?paramDict0.0 = sample_par and fixParam = "Some []" and config = "Some Map.empty"
      and out = "[]", THEN conjunct1, rule_format, OF process_sample_env]
  note t2 = singular_hessian_raises [where c = flat_env and specdata = 0
      and param = sample_par and specParams = sample_names and ps = "[5000, 3, - 1, 0]"
      and bv = 120 and outp = "sample_fit 1 [5000, 3, - 1, 0]" and H = zero4 and e = LinAlgError
      and bp = "\<lparr> vel = 120, vsini = None, rot_params = None, params = [5000, 3, - 1, 0] \<rparr>",
      THEN conjunct2, rule_format]
  have inv: "\<exists>H Hi. linalg_inv sample_env H = Inr Hi"
    using t1 by blast
  have fin: "process_finish flat_env 0 sample_names
        \<lparr> vel = 120, vsini = None, rot_params = None, params = [5000, 3, - 1, 0] \<rparr>
        sample_par None 120 120 sample_found = Inl LinAlgError"
    using t2 flat items_sample by simp
  show ?thesis
    using process_sample_env inv items_sample flat fin by simp
qed

text \<open>
  On \<open>flat_env\<close> the Hessian is the zero matrix and the whole call ends with the
  exception of the inversion.
\<close>

theorem singular_hessian_counterexample:
  "process flat_env 0 sample_par (Some []) (Some Map.empty) = Some ([], Inl LinAlgError)
   \<and> Hessian flat_env (hess_func flat_env 0 120 None) (hess_step [5000, 3, - 1, 0])
        [5000, 3, - 1, 0] = Inr zero4
   \<and> linalg_inv flat_env zero4 = Inl LinAlgError"
proof -
  have "Hessian flat_env (hess_func flat_env 0 120 None) (hess_step [5000, 3, - 1, 0])
        [5000, 3, - 1, 0] = Inr zero4
      \<and> linalg_inv flat_env zero4 = Inl LinAlgError"
    by (simp add: flat_env_def sample_env_def zero4_def identity4_def)
  then show ?thesis
    using process_flat_env by simp
qed

section \<open>Objects without a vsini seed\<close>



lemma py_index_lt: "i < length xs \<Longrightarrow> py_index xs i = Inr (xs ! i)"
  by (simp add: py_index_def)

lemma py_indices_012:
  assumes "3 \<le> length xs"
  shows "py_indices xs [0, 1, 2] = Inr [xs ! 0, xs ! 1, xs ! 2]"
proof -
  have "0 < length xs" "1 < length xs" "2 < length xs"
    using assms by linarith+
  then show ?thesis
    by (simp add: py_index_lt)
qed

lemma make_row_KeyError:
  assumes nv: "ret_vsini res1 = None"
      and keys: "{''logg'', ''teff'', ''alpha'', ''feh''} \<subseteq> dom (ret_param res1)"
      and l1: "3 \<le> length (ret_chisq_array res1)" and l2: "3 \<le> length cc"
      and l3: "3 \<le> length (row_sns r)"
  shows "make_row r res1 cc = Inl (KeyError ''vsini'')"
proof -
  from keys obtain lg te al fe where k:
    "dict_item (ret_param res1) ''logg'' = Inr lg" "dict_item (ret_param res1) ''teff'' = Inr te"
    "dict_item (ret_param res1) ''alpha'' = Inr al" "dict_item (ret_param res1) ''feh'' = Inr fe"
    by (auto simp: dict_item_def)
  show ?thesis
    unfolding make_row_def k py_indices_012 [OF l1] py_indices_012 [OF l2] py_indices_012 [OF l3]
    by (simp add: nv)
qed




lemma say_nil: "say w [] = w"
  by (simp add: say_def)

lemma valid_sample_file: "valid_file sample_file = ([], True)"
proof -
  have "filter (\<lambda>curn. curn \<notin> set (extnames sample_file)) reqnames = []"
    by (simp add: sample_file_def filter_empty_conv)
  then show ?thesis
    by (simp add: valid_file_def)
qed

lemma sample_row_facts:
  "fibermap sample_file = [\<lparr> mws_target = 1, targetid = 7, brickname = ''b1'', row_spec = 0,
                     row_sns = [30, 30, 30] \<rparr>]"
  "''FIBERMAP'' \<in> set (extnames sample_file)"
  by (simp_all add: sample_file_def)

lemma sample_seed_facts:
  "ccf_fit sample_env sd = Inr \<lparr> best_par = sample_par, best_vsini = None \<rparr>"
  "get_chisq_continuum sample_env sd = Inr [2, 2, 2]"
  "fits_files sample_env ''a.fits'' = Some sample_file"
  "fits_files sample_env ''b.fits'' = Some sample_file"
  "read_config sample_env cfg = Inr (Some Map.empty)"
  by (simp_all add: sample_env_def)

lemma sample_par_dom: "dom sample_par = {''teff'', ''logg'', ''feh'', ''alpha''}"
  by (auto simp: sample_par_def)

lemma proc_desi_sample:
  assumes "fits_files sample_env fname = Some sample_file"
  shows "proc_desi sample_env (fname, ofname, fig_prefix, Some Map.empty, None) w =
     Some (say w [Processing fname], Inl (KeyError ''vsini''))"
proof -
  have row: "make_row \<lparr> mws_target = 1, targetid = 7, brickname = ''b1'', row_spec = 0,
                     row_sns = [30, 30, 30] \<rparr>
      \<lparr> ret_param = sample_par, ret_vsini = None, ret_vel = 120,
              ret_vel_err = 100, ret_skewness = 0, ret_kurtosis = 3,
              ret_param_err = dict_zip sample_names (map np_sqrt (np_diag identity4)),
              ret_yfit = (), ret_chisq = 3, ret_chisq_array = [1, 1, 1] \<rparr> [2, 2, 2]
      = Inl (KeyError ''vsini'')"
    by (rule make_row_KeyError) (simp_all add: sample_par_dom)
  have obj: "proc_object sample_env (Some Map.empty) fig_prefix
      \<lparr> mws_target = 1, targetid = 7, brickname = ''b1'', row_spec = 0,
                     row_sns = [30, 30, 30] \<rparr> w0 = Some (w0, Inl (KeyError ''vsini''))" for w0
    by (simp add: proc_object_def sample_seed_facts process_sample_env row say_nil)
  show ?thesis
    by (simp add: proc_desi_def assms valid_sample_file sample_row_facts obj)
qed


section \<open>The batch loop\<close>

text \<open>
  C1. When \<^verbatim>\<open>proc_desi\<close> raises on a file that is not skipped, \<^verbatim>\<open>proc_desi_wrapper\<close>
  prints the arguments of the call and raises the exception again. With
  \<^verbatim>\<open>nthreads \<le> 1\<close> the exception leaves \<^verbatim>\<open>proc_many\<close> at that file and the files after
  it are not processed; with \<^verbatim>\<open>nthreads > 1\<close> the exception stays in the future of the
  submitted call and the loop goes on with the files after it.
\<close>

theorem batch_failure_propagation:
  assumes rc: "read_config env cfg = Inr config"
      and fail: "proc_desi env (f, oprefix @ ''outtab_'' @ basename f, fig_prefix, config, tid) w
                   = Some (w1, Inl e)"
      and fresh: "overwrite \<or> tables w (oprefix @ ''outtab_'' @ basename f) = None"
  shows "proc_desi_wrapper env (f, oprefix @ ''outtab_'' @ basename f, fig_prefix, config, tid) w
           = Some (say w1 [FailedWith (f, oprefix @ ''outtab_'' @ basename f, fig_prefix, config, tid)],
                   Inl e)
       \<and> proc_many env (f # fs) oprefix fig_prefix cfg nthreads overwrite tid w =
           (if nthreads > 1 then
              proc_files env True overwrite oprefix fig_prefix config tid fs
                (say w1 [FailedWith (f, oprefix @ ''outtab_'' @ basename f, fig_prefix, config, tid)])
            else
              Some (say w1 [FailedWith (f, oprefix @ ''outtab_'' @ basename f, fig_prefix, config, tid)],
                    Inl e))"
proof -
  have wr: "proc_desi_wrapper env (f, oprefix @ ''outtab_'' @ basename f, fig_prefix, config, tid) w
           = Some (say w1 [FailedWith (f, oprefix @ ''outtab_'' @ basename f, fig_prefix, config, tid)],
                   Inl e)"
    using fail by (simp add: proc_desi_wrapper_def)
  show ?thesis
    using wr rc fresh by (auto simp: proc_many_def Let_def)
qed

lemma basename_plain: "basename ''a.fits'' = ''a.fits''" "basename ''b.fits'' = ''b.fits''"
  by (simp_all add: basename_def)

lemma flat_seed_facts:
  "ccf_fit flat_env sd = Inr \<lparr> best_par = sample_par, best_vsini = None \<rparr>"
  "fits_files flat_env ''a.fits'' = Some sample_file"
  "fits_files flat_env ''b.fits'' = Some sample_file"
  "read_config flat_env cfg = Inr (Some Map.empty)"
  by (simp_all add: flat_env_def sample_env_def)

lemma proc_desi_flat:
  assumes "fits_files flat_env fname = Some sample_file"
  shows "proc_desi flat_env (fname, ofname, fig_prefix, Some Map.empty, None) w =
     Some (say w [Processing fname], Inl LinAlgError)"
proof -
  have obj: "proc_object flat_env (Some Map.empty) fig_prefix
      \<lparr> mws_target = 1, targetid = 7, brickname = ''b1'', row_spec = 0,
                     row_sns = [30, 30, 30] \<rparr> w0 = Some (w0, Inl LinAlgError)" for w0
    by (simp add: proc_object_def flat_seed_facts process_flat_env say_nil)
  show ?thesis
    by (simp add: proc_desi_def assms valid_sample_file sample_row_facts obj)
qed

lemma wrapper_flat:
  assumes "fits_files flat_env fname = Some sample_file"
  shows "proc_desi_wrapper flat_env (fname, ofname, fig_prefix, Some Map.empty, None) w =
     Some (say (say w [Processing fname])
             [FailedWith (fname, ofname, fig_prefix, Some Map.empty, None)],
           Inl LinAlgError)"
  by (simp add: proc_desi_wrapper_def proc_desi_flat [OF assms])

lemma proc_files_flat_serial:
  "proc_files flat_env False True ''out/'' ''fig'' (Some Map.empty) None [''a.fits'', ''b.fits''] prior
     = Some (\<lparr> stdout = [Processing ''a.fits'',
                  FailedWith (''a.fits'', ''out/outtab_a.fits'', ''fig'', Some Map.empty, None)],
               tables = Map.empty, figures = [] \<rparr>, Inl LinAlgError)"
  apply (simp add: Let_def basename_plain)
  apply (simp add: Let_def basename_plain wrapper_flat flat_seed_facts)
  apply (simp add: Let_def basename_plain wrapper_flat flat_seed_facts say_def prior_def)
  done

theorem batch_failure_propagation_witness:
  "read_config flat_env None = Inr (Some Map.empty)
   \<and> proc_desi flat_env (''a.fits'', ''out/'' @ ''outtab_'' @ basename ''a.fits'', ''fig'',
         Some Map.empty, None) prior
       = Some (say prior [Processing ''a.fits''], Inl LinAlgError)
   \<and> proc_many flat_env [''a.fits'', ''b.fits''] ''out/'' ''fig'' None 2 True None prior
       = Some (\<lparr> stdout = [Processing ''a.fits'',
                  FailedWith (''a.fits'', ''out/outtab_a.fits'', ''fig'', Some Map.empty, None),
                  Processing ''b.fits'',
                  FailedWith (''b.fits'', ''out/outtab_b.fits'', ''fig'', Some Map.empty, None)],
               tables = Map.empty, figures = [] \<rparr>, Inr ())
   \<and> proc_many flat_env [''a.fits''] ''out/'' ''fig'' None 1 True None prior
       = Some (\<lparr> stdout = [Processing ''a.fits'',
                  FailedWith (''a.fits'', ''out/outtab_a.fits'', ''fig'', Some Map.empty, None)],
               tables = Map.empty, figures = [] \<rparr>, Inl LinAlgError)"
proof -
  have rc: "read_config flat_env None = Inr (Some Map.empty)"
    by (simp add: flat_seed_facts)
  have fail: "proc_desi flat_env (''a.fits'', ''out/'' @ ''outtab_'' @ basename ''a.fits'', ''fig'',
         Some Map.empty, None) prior
       = Some (say prior [Processing ''a.fits''], Inl LinAlgError)"
    by (simp add: proc_desi_flat flat_seed_facts)
  have fresh: "True \<or> tables prior (''out/'' @ ''outtab_'' @ basename ''a.fits'') = None"
    by simp
  have pool: "proc_files flat_env True True ''out/'' ''fig'' (Some Map.empty) None [''b.fits'']
      (say (say prior [Processing ''a.fits''])
         [FailedWith (''a.fits'', ''out/'' @ ''outtab_'' @ basename ''a.fits'', ''fig'',
            Some Map.empty, None)])
     = Some (\<lparr> stdout = [Processing ''a.fits'',
                  FailedWith (''a.fits'', ''out/outtab_a.fits'', ''fig'', Some Map.empty, None),
                  Processing ''b.fits'',
                  FailedWith (''b.fits'', ''out/outtab_b.fits'', ''fig'', Some Map.empty, None)],
               tables = Map.empty, figures = [] \<rparr>, Inr ())"
    apply (simp add: Let_def basename_plain)
    apply (simp add: Let_def basename_plain wrapper_flat flat_seed_facts)
    apply (simp add: Let_def basename_plain wrapper_flat flat_seed_facts say_def prior_def)
    done
  show ?thesis
    using batch_failure_propagation [OF rc fail fresh, of "[''b.fits'']" 2]
      batch_failure_propagation [OF rc fail fresh, of "[]" 1] rc fail pool
    by (simp add: basename_plain say_def prior_def)
qed

text \<open>
  A serial run on two files whose fits end with a singular Hessian: the fit of the first
  file raises, the exception leaves \<^verbatim>\<open>proc_many\<close>, and the second file is never opened.
\<close>

theorem batch_abort_counterexample:
  "proc_many flat_env [''a.fits'', ''b.fits''] ''out/'' ''fig'' None 1 True None prior
     = Some (\<lparr> stdout = [Processing ''a.fits'',
                  FailedWith (''a.fits'', ''out/outtab_a.fits'', ''fig'', Some Map.empty, None)],
               tables = Map.empty, figures = [] \<rparr>, Inl LinAlgError)"
  unfolding proc_many_def
  by (simp del: proc_files.simps add: flat_seed_facts proc_files_flat_serial)

end
